theory Spec2Isabelle
  imports Main "HOL-Library.AList" "HOL-Library.Multiset"
begin

section \<open>Values, errors and the client object\<close>

text \<open>
  Decoded JSON / Python values. A dict keeps its items in insertion order; a float is kept
  as mantissa and binary exponent.
\<close>

datatype json =
    JNull
  | JBool bool
  | JInt int
  | JFloat int int
  | JStr string
  | JArr "json list"
  | JObj "(string \<times> json) list"

text \<open>Every exception the modelled code can raise is a value.\<close>

datatype error =
    ConnectionError
  | ValueError
  | AttributeError string
  | KeyError string
  | IndexError
  | TypeError string

record http_response =
  status :: int
  data :: string
  resp_headers :: "(string \<times> string) list"

text \<open>
  What the process does to the outside world, in order: a GET on an endpoint, a
  \<open>time.sleep\<close>, a printed line. A printed f-string is kept as its pieces, so that no
  \<open>repr\<close> has to be spelled out.
\<close>

datatype piece = Lit string | FInt int | FBytes string | FJson json

datatype event = Request string | Sleep nat | Print "piece list"

text \<open>
  The \<open>MediumClient\<close> object together with the trace of the process. The attribute
  \<open>calls\<close> is not assigned by \<open>MediumClient.__init__\<close>; it is \<open>None\<close> here when the
  base class has not supplied it, and \<open>self.calls += 1\<close> then raises.
\<close>

record state =
  api_headers :: "(string \<times> string) list"
  calls :: "int option"
  call_count_key :: string
  call_count_limit_key :: string
  call_limit_remaining_key :: string
  call_counts :: "string option"
  call_count_limit :: "string option"
  remaining_calls :: "string option"
  trace :: "event list"

definition base_url :: string where
  "base_url = ''medium2.p.rapidapi.com''"

text \<open>
  \<open>MediumClient.__init__\<close>. The base-class initialiser and \<open>set_rate_limit\<close> belong to
  the mixin and are parameters: \<open>super_init\<close> is the object as the base class leaves it.
\<close>

definition MediumClient_init ::
  "state \<Rightarrow> (int \<Rightarrow> int \<Rightarrow> state \<Rightarrow> state) \<Rightarrow> string \<Rightarrow> int \<Rightarrow> int \<Rightarrow> state" where
  "MediumClient_init super_init set_rate_limit rapidapi_key n p =
     (let s1 = super_init\<lparr>api_headers :=
                 [(''X-RapidAPI-Key'', rapidapi_key),
                  (''X-RapidAPI-Host'', ''medium2.p.rapidapi.com''),
                  (''User-Agent'', ''medium-api-python-sdk'')]\<rparr>;
          s2 = set_rate_limit n p s1
      in s2\<lparr>call_count_key := ''x-amzn-requestid'',
            call_count_limit_key := ''X-RateLimit-All-endpoints-Limit'',
            call_limit_remaining_key := ''X-RateLimit-All-endpoints-Remaining'',
            call_counts := None,
            call_count_limit := None,
            remaining_calls := None\<rparr>)"

section \<open>Transport and retry: \<open>__get_resp\<close>\<close>

fun is_Request :: "event \<Rightarrow> bool" where
  "is_Request (Request _) = True"
| "is_Request _ = False"

fun is_Sleep :: "event \<Rightarrow> bool" where
  "is_Sleep (Sleep _) = True"
| "is_Sleep _ = False"

text \<open>The number of GET requests the process has issued so far.\<close>

definition sent :: "state \<Rightarrow> nat" where
  "sent s = length (filter is_Request (trace s))"

definition emit :: "event list \<Rightarrow> state \<Rightarrow> state" where
  "emit es s = s\<lparr>trace := trace s @ es\<rparr>"

text \<open>\<open>json_data.keys()\<close>: only a dict has the method.\<close>

fun json_keys :: "json \<Rightarrow> error + string list" where
  "json_keys (JObj kvs) = Inr (map fst kvs)"
| "json_keys _ = Inl (AttributeError ''keys'')"

text \<open>
  The remote service is a parameter: \<open>server endpoint k\<close> is what the \<open>k\<close>-th request of
  the process gets when it asks for \<open>endpoint\<close> (\<open>Inl\<close> when the connection itself fails).
  \<open>loads\<close> is the JSON decoder. The function follows the source branch by branch; the
  recursion is the retry.
\<close>

function get_resp ::
  "(string \<Rightarrow> nat \<Rightarrow> error + http_response) \<Rightarrow> (string \<Rightarrow> error + json) \<Rightarrow>
   string \<Rightarrow> int \<Rightarrow> state \<Rightarrow> (error + json \<times> int) \<times> state" where
  "get_resp server loads endpoint retries s =
     (let s1 = emit [Request endpoint] s in
      case server endpoint (sent s) of
        Inl e \<Rightarrow> (Inl e, s1)
      | Inr resp \<Rightarrow>
          if status resp = 200 then
            (case calls s1 of
               None \<Rightarrow> (Inl (AttributeError ''calls''), s1)
             | Some c \<Rightarrow>
                 (let s2 = s1\<lparr>calls := Some (c + 1)\<rparr> in
                  case loads (data resp) of
                    Inl e \<Rightarrow> (Inl e, s2)
                  | Inr json_data \<Rightarrow>
                      (case json_keys json_data of
                         Inl e \<Rightarrow> (Inl e, s2)
                       | Inr ks \<Rightarrow>
                           if ''error'' \<notin> set ks then (Inr (json_data, status resp), s2)
                           else if retries < 3 then
                             get_resp server loads endpoint (retries + 1) (emit [Sleep 5] s2)
                           else
                             (Inr (JObj [], status resp),
                              emit [Print [Lit ''[ERROR]: Response: '', FJson json_data]] s2))))
          else
            (Inr (JObj [], status resp),
             emit [Print [Lit ''[ERROR]: Status Code: '', FInt (status resp)],
                   Print [Lit ''[ERROR]: Response: '', FBytes (data resp)]] s1))"
  by pat_completeness auto
termination
  by (relation "measure (\<lambda>(server, loads, endpoint, retries, s). nat (3 - retries))") auto

declare get_resp.simps [simp del]

text \<open>A soft error: status 200 with a decoded dict that has the key \<open>error\<close>.\<close>

definition soft_error :: "(string \<Rightarrow> error + json) \<Rightarrow> error + http_response \<Rightarrow> bool" where
  "soft_error loads r =
     (case r of
        Inl _ \<Rightarrow> False
      | Inr resp \<Rightarrow>
          status resp = 200 \<and>
          (case loads (data resp) of
             Inr (JObj kvs) \<Rightarrow> ''error'' \<in> set (map fst kvs)
           | _ \<Rightarrow> False))"

text \<open>The decoded body of a response (\<open>JNull\<close> when it does not decode).\<close>

definition body_of :: "(string \<Rightarrow> error + json) \<Rightarrow> error + http_response \<Rightarrow> json" where
  "body_of loads r =
     (case r of
        Inl _ \<Rightarrow> JNull
      | Inr resp \<Rightarrow> (case loads (data resp) of Inl _ \<Rightarrow> JNull | Inr j \<Rightarrow> j))"



section \<open>Resource constructors: \<open>user\<close> and \<open>publication\<close>\<close>

text \<open>\<open>resp[key]\<close>: a missing key of a dict raises \<open>KeyError\<close>.\<close>

definition getitem :: "json \<Rightarrow> string \<Rightarrow> error + json" where
  "getitem j k =
     (case j of
        JObj kvs \<Rightarrow> (case map_of kvs k of None \<Rightarrow> Inl (KeyError k) | Some v \<Rightarrow> Inr v)
      | _ \<Rightarrow> Inl (TypeError ''subscript''))"

text \<open>A constructor of a handle class returns the new object, or raises.\<close>

definition construct :: "(error + 'u) \<times> state \<Rightarrow> (error + 'u option) \<times> state" where
  "construct r = (case r of (Inl e, s) \<Rightarrow> (Inl e, s) | (Inr u, s) \<Rightarrow> (Inr (Some u), s))"

text \<open>The two usage messages; \<open>dq\<close> is the double quote they contain.\<close>

definition dq :: string where
  "dq = [CHR 0x22]"

definition missing_user_id :: string where
  "missing_user_id =
     ''[ERROR]: Missing parameter: Please provide '' @ dq @ ''user_id'' @ dq @ '' or '' @
     dq @ ''username'' @ dq @ '' to call the function''"

definition missing_publication_id :: string where
  "missing_publication_id =
     ''[ERROR]: Missing parameter: Please provide '' @ dq @ ''publication_id'' @ dq @ '' or '' @
     dq @ ''publication_slug'' @ dq @ '' to call this function''"

text \<open>
  \<open>MediumClient.user\<close>. The class \<open>User\<close> is a parameter (its constructor gets the id and
  the \<open>save_info\<close> flag and may itself call the service). The result \<open>Inr None\<close> is
  Python's \<open>return None\<close>.
\<close>

definition user ::
  "(string \<Rightarrow> nat \<Rightarrow> error + http_response) \<Rightarrow> (string \<Rightarrow> error + json) \<Rightarrow>
   (json \<Rightarrow> bool \<Rightarrow> state \<Rightarrow> (error + 'u) \<times> state) \<Rightarrow>
   string option \<Rightarrow> string option \<Rightarrow> bool \<Rightarrow> state \<Rightarrow> (error + 'u option) \<times> state" where
  "user server loads User username user_id save_info s =
     (case user_id of
        Some uid \<Rightarrow> construct (User (JStr uid) save_info s)
      | None \<Rightarrow>
          (case username of
             Some name \<Rightarrow>
               (case get_resp server loads (''/user/id_for/'' @ name) 0 s of
                  (Inl e, s1) \<Rightarrow> (Inl e, s1)
                | (Inr (resp, _), s1) \<Rightarrow>
                    (case getitem resp ''id'' of
                       Inl e \<Rightarrow> (Inl e, s1)
                     | Inr uid \<Rightarrow> construct (User uid save_info s1)))
           | None \<Rightarrow>
               (Inr None,
                emit [Print [Lit missing_user_id]] s)))"

definition publication ::
  "(string \<Rightarrow> nat \<Rightarrow> error + http_response) \<Rightarrow> (string \<Rightarrow> error + json) \<Rightarrow>
   (json \<Rightarrow> bool \<Rightarrow> state \<Rightarrow> (error + 'u) \<times> state) \<Rightarrow>
   string option \<Rightarrow> string option \<Rightarrow> bool \<Rightarrow> state \<Rightarrow> (error + 'u option) \<times> state" where
  "publication server loads Publication publication_slug publication_id save_info s =
     (case publication_id of
        Some pid \<Rightarrow> construct (Publication (JStr pid) save_info s)
      | None \<Rightarrow>
          (case publication_slug of
             Some slug \<Rightarrow>
               (case get_resp server loads (''/publication/id_for/'' @ slug) 0 s of
                  (Inl e, s1) \<Rightarrow> (Inl e, s1)
                | (Inr (resp, _), s1) \<Rightarrow>
                    (case getitem resp ''publication_id'' of
                       Inl e \<Rightarrow> (Inl e, s1)
                     | Inr pid \<Rightarrow> construct (Publication pid save_info s1)))
           | None \<Rightarrow>
               (Inr None,
                emit [Print [Lit missing_publication_id]] s)))"


section \<open>\<open>extract_article_id\<close>\<close>

text \<open>
  A Python string is a list of characters; a character is its code point, which keeps
  the model to Latin-1. \<open>is_space\<close> is the class \<open>\s\<close> of \<open>re\<close> and
  \<open>is_alnum_char\<close> is \<open>str.isalnum\<close> on one character, both on that range.
\<close>

definition is_space :: "char \<Rightarrow> bool" where
  "is_space c =
     (let n = (of_char c :: nat)
      in (9 \<le> n \<and> n \<le> 13) \<or> (28 \<le> n \<and> n \<le> 32) \<or> n = 133 \<or> n = 160)"

definition is_alnum_char :: "char \<Rightarrow> bool" where
  "is_alnum_char c =
     (let n = (of_char c :: nat)
      in (48 \<le> n \<and> n \<le> 57) \<or> (65 \<le> n \<and> n \<le> 90) \<or> (97 \<le> n \<and> n \<le> 122) \<or>
         n = 170 \<or> n = 178 \<or> n = 179 \<or> n = 181 \<or> n = 185 \<or> n = 186 \<or>
         (188 \<le> n \<and> n \<le> 190) \<or> (192 \<le> n \<and> n \<le> 214) \<or>
         (216 \<le> n \<and> n \<le> 246) \<or> (248 \<le> n \<and> n \<le> 255))"

text \<open>\<open>str.isalnum\<close>: at least one character, and all of them alphanumeric.\<close>

definition isalnum :: "string \<Rightarrow> bool" where
  "isalnum w = (w \<noteq> [] \<and> list_all is_alnum_char w)"

text \<open>
  The pattern \<open>(https?://[^\s]+)\<close> matched at the start of a string: the scheme, then the
  longest non-empty run of characters that are not white space.
\<close>

definition match_url :: "string \<Rightarrow> string option" where
  "match_url w =
     (let scheme = (if take 8 w = ''https://'' then ''https://''
                    else if take 7 w = ''http://'' then ''http://'' else [])
      in if scheme = [] then None
         else (let run = takeWhile (\<lambda>c. \<not> is_space c) (drop (length scheme) w)
               in if run = [] then None else Some (scheme @ run)))"

text \<open>
  \<open>re.findall\<close> for that pattern: scan from the left, resume after each match. A match
  is never empty, so after a match at \<open>c # cs\<close> the scan resumes in \<open>cs\<close>.
\<close>

fun findall :: "string \<Rightarrow> string list" where
  "findall [] = []"
| "findall (c # cs) =
     (case match_url (c # cs) of
        Some u \<Rightarrow> u # findall (drop (length u - 1) cs)
      | None \<Rightarrow> findall cs)"

text \<open>\<open>str.split(sep)\<close> for a separator of one character; the result is never empty.\<close>

fun split_on :: "char \<Rightarrow> string \<Rightarrow> string list" where
  "split_on sep [] = [[]]"
| "split_on sep (c # cs) =
     (if c = sep then [] # split_on sep cs
      else (case split_on sep cs of
              [] \<Rightarrow> [[c]]
            | w # ws \<Rightarrow> (c # w) # ws))"

text \<open>\<open>xs[-1]\<close>.\<close>

definition last_item :: "'a list \<Rightarrow> error + 'a" where
  "last_item xs = (if xs = [] then Inl IndexError else Inr (last xs))"

text \<open>
  \<open>urllib.parse._splitparams\<close>: the parameters of the last path segment, from its first
  semicolon on, are cut off.
\<close>

definition splitparams :: "string \<Rightarrow> string" where
  "splitparams url =
     (if CHR ''/'' \<in> set url then
        (let seg = rev (takeWhile (\<lambda>c. c \<noteq> CHR ''/'') (rev url));
             dir = take (length url - length seg) url
         in dir @ takeWhile (\<lambda>c. c \<noteq> CHR '';'') seg)
      else takeWhile (\<lambda>c. c \<noteq> CHR '';'') url)"

text \<open>
  \<open>urlparse(url).path\<close> for a URL that \<open>match_url\<close> produced (scheme \<open>http\<close> or
  \<open>https\<close>, then \<open>//\<close>, no white space): the network location runs up to the first of
  \<open>/ ? #\<close>; what follows, without fragment, query and parameters, is the path. A network
  location with one bracket but not the other raises \<open>ValueError\<close>; the check of a
  bracketed host differs between library versions and is the parameter \<open>host_ok\<close>.
\<close>

definition urlparse_path :: "(string \<Rightarrow> bool) \<Rightarrow> string \<Rightarrow> error + string" where
  "urlparse_path host_ok url =
     (let after_scheme = drop 1 (dropWhile (\<lambda>c. c \<noteq> CHR '':'') url);
          delim = (\<lambda>c. c = CHR ''/'' \<or> c = CHR ''?'' \<or> c = CHR ''#'');
          slashes = (take 2 after_scheme = ''//'');
          netloc = (if slashes then takeWhile (\<lambda>c. \<not> delim c) (drop 2 after_scheme) else []);
          rest = (if slashes then dropWhile (\<lambda>c. \<not> delim c) (drop 2 after_scheme)
                  else after_scheme);
          opening = CHR ''['' \<in> set netloc;
          closing = CHR '']'' \<in> set netloc
      in if (opening \<and> \<not> closing) \<or> (closing \<and> \<not> opening) then Inl ValueError
         else if opening \<and> closing \<and> \<not> host_ok netloc then Inl ValueError
         else (let no_fragment = takeWhile (\<lambda>c. c \<noteq> CHR ''#'') rest;
                   no_query = takeWhile (\<lambda>c. c \<noteq> CHR ''?'') no_fragment
               in Inr (splitparams no_query)))"

text \<open>\<open>MediumClient.extract_article_id\<close>; \<open>Inr None\<close> is \<open>return None\<close>.\<close>

definition extract_article_id :: "(string \<Rightarrow> bool) \<Rightarrow> string \<Rightarrow> error + string option" where
  "extract_article_id host_ok article_url =
     (case findall article_url of
        [] \<Rightarrow> Inr None
      | url # _ \<Rightarrow>
          (case urlparse_path host_ok url of
             Inl e \<Rightarrow> Inl e
           | Inr urlpath \<Rightarrow>
               if urlpath \<noteq> [] then
                 (case last_item (split_on CHR ''/'' urlpath) of
                    Inl e \<Rightarrow> Inl e
                  | Inr last_location \<Rightarrow>
                      (case last_item (split_on CHR ''-'' last_location) of
                         Inl e \<Rightarrow> Inl e
                       | Inr article_id \<Rightarrow>
                           if isalnum article_id then Inr (Some article_id) else Inr None))
               else Inr None))"

text \<open>Whether \<open>http://\<close> or \<open>https://\<close> occurs somewhere in a string.\<close>

definition mentions_url :: "string \<Rightarrow> bool" where
  "mentions_url w =
     list_ex (\<lambda>i. take 7 (drop i w) = ''http://'' \<or> take 8 (drop i w) = ''https://'')
       [0..<length w]"

section \<open>The class body: methods defined twice\<close>

text \<open>
  An argument of the batch-style methods is a string or a list of strings
  (\<open>Union[str, List[str]]\<close>). A method returns \<open>None\<close>, a decoded value, a dict built
  with \<open>dict(zip(\<dots>))\<close>, or a handle object.
\<close>

datatype arg = Str string | StrList "string list"

datatype ('h, 'r) retval = RNone | RJson json | RDict "(string \<times> 'r) list" | RObj 'h

text \<open>
  What the methods use from elsewhere: the service and the decoder, the
  mixin's \<open>pipeline\<close> (applied to \<open>process_gets\<close>), \<open>str.format\<close> with one keyword
  (template, key, value), \<open>str()\<close> of a list, and the two handle classes.
\<close>

record ('h, 'r) env =
  env_server :: "string \<Rightarrow> nat \<Rightarrow> error + http_response"
  env_loads :: "string \<Rightarrow> error + json"
  env_pipeline :: "string list \<Rightarrow> state \<Rightarrow> (error + 'r list option) \<times> state"
  env_format :: "string \<Rightarrow> string \<Rightarrow> string \<Rightarrow> error + string"
  env_repr :: "string list \<Rightarrow> string"
  env_TopFeeds :: "arg \<Rightarrow> arg \<Rightarrow> state \<Rightarrow> (error + 'h) \<times> state"
  env_TopWriters :: "arg \<Rightarrow> state \<Rightarrow> (error + 'h) \<times> state"

text \<open>\<open>map\<close> with a function that may raise: the first exception ends it.\<close>

fun traverse :: "('a \<Rightarrow> error + 'b) \<Rightarrow> 'a list \<Rightarrow> error + 'b list" where
  "traverse f [] = Inr []"
| "traverse f (x # xs) =
     (case f x of
        Inl e \<Rightarrow> Inl e
      | Inr y \<Rightarrow> (case traverse f xs of Inl e \<Rightarrow> Inl e | Inr ys \<Rightarrow> Inr (y # ys)))"

text \<open>\<open>MediumClient.get_urls\<close>.\<close>

definition get_urls ::
  "(string \<Rightarrow> string \<Rightarrow> string \<Rightarrow> error + string) \<Rightarrow> string \<Rightarrow> string \<Rightarrow> string list \<Rightarrow>
   error + string list" where
  "get_urls format endpoint key args =
     traverse
       (\<lambda>x. case format (fst x) key (snd x) of
               Inl e \<Rightarrow> Inl e
             | Inr path \<Rightarrow> Inr (''https://'' @ base_url @ path))
       (zip (replicate (length args) endpoint) args)"

text \<open>\<open>dict(pairs)\<close>: a later pair with a key already present replaces its value.\<close>

definition py_dict :: "('k \<times> 'v) list \<Rightarrow> ('k \<times> 'v) list" where
  "py_dict ps = foldl (\<lambda>d kv. AList.update (fst kv) (snd kv) d) [] ps"

text \<open>\<open>if not isinstance(tag, list): tag = [tag]\<close>.\<close>

fun as_list :: "arg \<Rightarrow> string list" where
  "as_list (StrList xs) = xs"
| "as_list (Str x) = [x]"

text \<open>An argument inside an f-string.\<close>

definition py_str :: "('h, 'r) env \<Rightarrow> arg \<Rightarrow> string" where
  "py_str env a = (case a of Str x \<Rightarrow> x | StrList xs \<Rightarrow> env_repr env xs)"

text \<open>
  The common tail of the batch-style methods: run the pipeline on the URLs, and return
  the dict of the arguments zipped with the results when the results are truthy;
  otherwise the method falls off its end and returns \<open>None\<close>.
\<close>

definition batch ::
  "('h, 'r) env \<Rightarrow> string \<Rightarrow> string \<Rightarrow> string list \<Rightarrow> state \<Rightarrow>
   (error + ('h, 'r) retval) \<times> state" where
  "batch env endpoint key args s =
     (case get_urls (env_format env) endpoint key args of
        Inl e \<Rightarrow> (Inl e, s)
      | Inr urls \<Rightarrow>
          (case env_pipeline env urls s of
             (Inl e, s1) \<Rightarrow> (Inl e, s1)
           | (Inr None, s1) \<Rightarrow> (Inr RNone, s1)
           | (Inr (Some res), s1) \<Rightarrow>
               if res \<noteq> [] then (Inr (RDict (py_dict (zip args res))), s1)
               else (Inr RNone, s1)))"

text \<open>The definitions at lines 291, 336 and 368 of the source.\<close>

definition top_writers_first ::
  "('h, 'r) env \<Rightarrow> arg \<Rightarrow> state \<Rightarrow> (error + ('h, 'r) retval) \<times> state" where
  "top_writers_first env topic_slug s =
     (case env_TopWriters env topic_slug s of
        (Inl e, s1) \<Rightarrow> (Inl e, s1)
      | (Inr h, s1) \<Rightarrow> (Inr (RObj h), s1))"

definition topfeeds_first ::
  "('h, 'r) env \<Rightarrow> arg \<Rightarrow> arg \<Rightarrow> state \<Rightarrow> (error + ('h, 'r) retval) \<times> state" where
  "topfeeds_first env tag mode s =
     (case env_TopFeeds env tag mode s of
        (Inl e, s1) \<Rightarrow> (Inl e, s1)
      | (Inr h, s1) \<Rightarrow> (Inr (RObj h), s1))"

definition related_tags_first ::
  "('h, 'r) env \<Rightarrow> arg \<Rightarrow> state \<Rightarrow> (error + ('h, 'r) retval) \<times> state" where
  "related_tags_first env given_tag s =
     (case get_resp (env_server env) (env_loads env)
             (''/related_tags/'' @ py_str env given_tag) 0 s of
        (Inl e, s1) \<Rightarrow> (Inl e, s1)
      | (Inr (resp, _), s1) \<Rightarrow>
          (case getitem resp ''related_tags'' of
             Inl e \<Rightarrow> (Inl e, s1)
           | Inr v \<Rightarrow> (Inr (RJson v), s1)))"

text \<open>The definitions at lines 582, 594 and 607 of the source.\<close>

definition topfeeds ::
  "('h, 'r) env \<Rightarrow> arg \<Rightarrow> arg \<Rightarrow> state \<Rightarrow> (error + ('h, 'r) retval) \<times> state" where
  "topfeeds env tag mode s =
     (case mode of
        StrList _ \<Rightarrow> (Inl (TypeError ''can only concatenate str''), s)
      | Str m \<Rightarrow> batch env (''/topfeeds/{tag}/'' @ m) ''tag'' (as_list tag) s)"

definition top_writers ::
  "('h, 'r) env \<Rightarrow> arg \<Rightarrow> state \<Rightarrow> (error + ('h, 'r) retval) \<times> state" where
  "top_writers env topic_slug s =
     batch env ''top_writers/{topic_slug}'' ''topic_slug'' (as_list topic_slug) s"

definition related_tags ::
  "('h, 'r) env \<Rightarrow> arg \<Rightarrow> state \<Rightarrow> (error + ('h, 'r) retval) \<times> state" where
  "related_tags env tag s = batch env ''/related_tags/{tag}'' ''tag'' (as_list tag) s"

text \<open>
  A \<open>def\<close> statement of the class body: its line, its parameters after \<open>self\<close> (each
  with its default value, if it has one), and its body on the bound arguments.
\<close>

record ('h, 'r) pymethod =
  m_line :: nat
  m_params :: "(string \<times> arg option) list"
  m_body :: "arg list \<Rightarrow> state \<Rightarrow> (error + ('h, 'r) retval) \<times> state"

text \<open>
  The statements of the class body that bind the names \<open>top_writers\<close>, \<open>topfeeds\<close> and
  \<open>related_tags\<close>, in source order. No other statement of the class body binds one of
  the three names.
\<close>

definition class_body :: "('h, 'r) env \<Rightarrow> (string \<times> ('h, 'r) pymethod) list" where
  "class_body env =
     [(''top_writers'',
         \<lparr>m_line = 291, m_params = [(''topic_slug'', None)],
          m_body = (\<lambda>as. top_writers_first env (as ! 0))\<rparr>),
      (''topfeeds'',
         \<lparr>m_line = 336, m_params = [(''tag'', None), (''mode'', None)],
          m_body = (\<lambda>as. topfeeds_first env (as ! 0) (as ! 1))\<rparr>),
      (''related_tags'',
         \<lparr>m_line = 368, m_params = [(''given_tag'', None)],
          m_body = (\<lambda>as. related_tags_first env (as ! 0))\<rparr>),
      (''topfeeds'',
         \<lparr>m_line = 582, m_params = [(''tag'', None), (''mode'', Some (Str ''hot''))],
          m_body = (\<lambda>as. topfeeds env (as ! 0) (as ! 1))\<rparr>),
      (''top_writers'',
         \<lparr>m_line = 594, m_params = [(''topic_slug'', None)],
          m_body = (\<lambda>as. top_writers env (as ! 0))\<rparr>),
      (''related_tags'',
         \<lparr>m_line = 607, m_params = [(''tag'', None)],
          m_body = (\<lambda>as. related_tags env (as ! 0))\<rparr>)]"

text \<open>
  Executing the class body binds each name in turn, so a later \<open>def\<close> of a name replaces
  the earlier one; the class namespace is what is left at the end.
\<close>

definition class_namespace :: "('h, 'r) env \<Rightarrow> string \<Rightarrow> ('h, 'r) pymethod option" where
  "class_namespace env = foldl (\<lambda>ns b. ns(fst b \<mapsto> snd b)) Map.empty (class_body env)"

text \<open>
  Binding the arguments of a call to the parameters. Positional arguments go to the
  first parameters; a keyword must name a parameter, and one that no positional
  argument has filled; the parameters left take their defaults. Any mismatch is a
  \<open>TypeError\<close>. The result lists the values in parameter order.
\<close>

fun fill :: "(string \<times> arg option) list \<Rightarrow> arg list \<Rightarrow> (string \<times> arg) list \<Rightarrow> error + arg list" where
  "fill [] pos kw = Inr []"
| "fill ((p, d) # ps) (a # pos) kw =
     (case fill ps pos kw of Inl e \<Rightarrow> Inl e | Inr vs \<Rightarrow> Inr (a # vs))"
| "fill ((p, d) # ps) [] kw =
     (case map_of kw p of
        Some a \<Rightarrow> (case fill ps [] kw of Inl e \<Rightarrow> Inl e | Inr vs \<Rightarrow> Inr (a # vs))
      | None \<Rightarrow>
          (case d of
             None \<Rightarrow> Inl (TypeError ''missing required argument'')
           | Some a \<Rightarrow> (case fill ps [] kw of Inl e \<Rightarrow> Inl e | Inr vs \<Rightarrow> Inr (a # vs))))"

definition bind :: "(string \<times> arg option) list \<Rightarrow> arg list \<Rightarrow> (string \<times> arg) list \<Rightarrow> error + arg list" where
  "bind ps pos kw =
     (if list_ex (\<lambda>k. k \<notin> set (map fst ps)) (map fst kw)
        then Inl (TypeError ''unexpected keyword argument'')
      else if list_ex (\<lambda>k. k \<in> set (map fst (take (length pos) ps))) (map fst kw)
        then Inl (TypeError ''multiple values for argument'')
      else if length ps < length pos
        then Inl (TypeError ''too many positional arguments'')
      else fill ps pos kw)"

text \<open>\<open>medium.name(*pos, **kw)\<close> on a client instance.\<close>

definition call_method ::
  "('h, 'r) env \<Rightarrow> string \<Rightarrow> arg list \<Rightarrow> (string \<times> arg) list \<Rightarrow> state \<Rightarrow>
   (error + ('h, 'r) retval) \<times> state" where
  "call_method env name pos kw s =
     (case class_namespace env name of
        None \<Rightarrow> (Inl (AttributeError name), s)
      | Some m \<Rightarrow>
          (case bind (m_params m) pos kw of
             Inl e \<Rightarrow> (Inl e, s)
           | Inr vs \<Rightarrow> m_body m vs s))"

section \<open>The bulk fetcher: \<open>fetch_articles\<close> and \<open>fetch_users\<close>\<close>

text \<open>
  Handles are objects in a store, named by their addresses; the list given to the
  fetcher is a list of addresses. The handle classes live in other modules: the
  populate operations \<open>save_info\<close> and \<open>save_content\<close> are parameters that take a handle
  to its new state and to the exception they raise, if any, and \<open>title\<close> / \<open>fullname\<close>
  read the primary field. An operation is atomic and touches its own handle only.
\<close>

datatype op = SaveInfo | SaveContent

type_synonym job = "nat \<times> op"

type_synonym 'h store = "nat \<Rightarrow> 'h"

record 'h fetched =
  raised :: "error option"
  handles :: "'h store"
  completed :: "(nat \<times> error option) list"

text \<open>
  An order chosen by a scheduler: at each step the next choice (modulo the number of
  items left; \<open>0\<close> when the choices have run out) selects the item that comes next. Every
  list of choices gives an order of all the items.
\<close>

function pick_order :: "nat list \<Rightarrow> 'a list \<Rightarrow> 'a list" where
  "pick_order cs xs =
     (if xs = [] then []
      else (let i = (case cs of [] \<Rightarrow> 0 | c # _ \<Rightarrow> c mod length xs)
            in xs ! i # pick_order (tl cs) (take i xs @ drop (Suc i) xs)))"
  by pat_completeness auto
termination
proof (relation "measure (\<lambda>(cs, xs). length xs)")
  fix cs :: "nat list" and xs :: "'a list" and i
  assume "xs \<noteq> []" and i: "i = (case cs of [] \<Rightarrow> 0 | c # _ \<Rightarrow> c mod length xs)"
  then have "i < length xs"
    by (cases cs) simp_all
  then show "((tl cs, take i xs @ drop (Suc i) xs), (cs, xs)) \<in> measure (\<lambda>(cs, xs). length xs)"
    by simp
qed simp

declare pick_order.simps [simp del]

definition run_op ::
  "('h \<Rightarrow> 'h \<times> error option) \<Rightarrow> ('h \<Rightarrow> 'h \<times> error option) \<Rightarrow> op \<Rightarrow> 'h \<Rightarrow> 'h \<times> error option" where
  "run_op save_info save_content f h = (case f of SaveInfo \<Rightarrow> save_info h | SaveContent \<Rightarrow> save_content h)"

text \<open>
  The worker pool runs the futures one after the other in the given order; a future is
  a submitted job with its number. Each ends with its handle updated and its exception,
  if any, stored in the future. A failing job does not stop the others.
\<close>

fun run_jobs ::
  "(op \<Rightarrow> 'h \<Rightarrow> 'h \<times> error option) \<Rightarrow> (nat \<times> job) list \<Rightarrow> 'h store \<Rightarrow>
   'h store \<times> (nat \<times> error option) list" where
  "run_jobs run [] st = (st, [])"
| "run_jobs run ((fid, a, f) # js) st =
     (let (h, r) = run f (st a);
          (st', done) = run_jobs run js (st(a := h))
      in (st', (fid, r) # done))"

text \<open>
  \<open>for future in as_completed(\<dots>): future.result()\<close>: the first future, in the order
  \<open>as_completed\<close> yields them, that holds an exception raises it.
\<close>

fun first_raised :: "(nat \<times> error option) list \<Rightarrow> error option" where
  "first_raised [] = None"
| "first_raised ((fid, None) # fs) = first_raised fs"
| "first_raised ((fid, Some e) # fs) = Some e"

text \<open>
  One bulk call on the submitted jobs. \<open>sched\<close> is the order in which the pool runs the
  jobs and \<open>seen\<close> the order in which \<open>as_completed\<close> yields them; leaving the \<open>with\<close> block
  waits for every submitted job, also when \<open>future.result()\<close> has raised.
\<close>

definition run_pool ::
  "(op \<Rightarrow> 'h \<Rightarrow> 'h \<times> error option) \<Rightarrow> nat list \<Rightarrow> nat list \<Rightarrow> job list \<Rightarrow> 'h store \<Rightarrow>
   'h fetched" where
  "run_pool run sched seen jobs st =
     (let futures = zip [0..<length jobs] jobs;
          (st', done) = run_jobs run (pick_order sched futures) st
      in \<lparr>raised = first_raised (pick_order seen done), handles = st', completed = done\<rparr>)"

text \<open>
  The jobs \<open>fetch_articles\<close> submits: the two list comprehensions of the source. The
  primary field is read from the store as it is when the call starts; for handles that
  are distinct objects this is what the source reads, since no job on a handle is
  submitted before that handle's own field has been tested.
\<close>

definition article_jobs :: "('h \<Rightarrow> 't option) \<Rightarrow> nat list \<Rightarrow> bool \<Rightarrow> 'h store \<Rightarrow> job list" where
  "article_jobs title articles content st =
     map (\<lambda>a. (a, SaveInfo)) (filter (\<lambda>a. title (st a) = None) articles) @
     (if content then map (\<lambda>a. (a, SaveContent)) articles else [])"

definition fetch_articles ::
  "('h \<Rightarrow> 't option) \<Rightarrow> ('h \<Rightarrow> 'h \<times> error option) \<Rightarrow> ('h \<Rightarrow> 'h \<times> error option) \<Rightarrow>
   nat list \<Rightarrow> nat list \<Rightarrow> nat list \<Rightarrow> bool \<Rightarrow> 'h store \<Rightarrow> 'h fetched" where
  "fetch_articles title save_info save_content sched seen articles content st =
     run_pool (run_op save_info save_content) sched seen
       (article_jobs title articles content st) st"

text \<open>The jobs \<open>fetch_users\<close> submits, and the call.\<close>

definition user_jobs :: "('h \<Rightarrow> 't option) \<Rightarrow> nat list \<Rightarrow> 'h store \<Rightarrow> job list" where
  "user_jobs fullname users st =
     map (\<lambda>u. (u, SaveInfo)) (filter (\<lambda>u. fullname (st u) = None) users)"

definition fetch_users ::
  "('h \<Rightarrow> 't option) \<Rightarrow> ('h \<Rightarrow> 'h \<times> error option) \<Rightarrow>
   nat list \<Rightarrow> nat list \<Rightarrow> nat list \<Rightarrow> 'h store \<Rightarrow> 'h fetched" where
  "fetch_users fullname save_info sched seen users st =
     run_pool (\<lambda>f. save_info) sched seen (user_jobs fullname users st) st"

section \<open>Concrete instances\<close>

text \<open>
  A client fresh from its constructor, on a base class that starts the call counter at
  0; a decoder for the bodies used below; and three services: one that always answers
  with a soft error, one that always answers 404, and one that answers 200 with a user
  record and the three rate-limit headers.
\<close>

definition base_client :: state where
  "base_client =
     \<lparr>api_headers = [], calls = Some 0, call_count_key = [], call_count_limit_key = [],
      call_limit_remaining_key = [], call_counts = None, call_count_limit = None,
      remaining_calls = None, trace = []\<rparr>"

definition fresh_client :: state where
  "fresh_client = MediumClient_init base_client (\<lambda>n p s. s) ''KEY'' 100 60"

definition demo_loads :: "string \<Rightarrow> error + json" where
  "demo_loads body =
     (if body = ''ERR'' then Inr (JObj [(''error'', JStr ''Too many requests'')])
      else if body = ''USER'' then Inr (JObj [(''id'', JStr ''1985b61817c3'')])
      else Inl ValueError)"

definition soft_server :: "string \<Rightarrow> nat \<Rightarrow> error + http_response" where
  "soft_server endpoint k = Inr \<lparr>status = 200, data = ''ERR'', resp_headers = []\<rparr>"

definition down_server :: "string \<Rightarrow> nat \<Rightarrow> error + http_response" where
  "down_server endpoint k = Inr \<lparr>status = 404, data = ''Not Found'', resp_headers = []\<rparr>"

definition user_response :: http_response where
  "user_response =
     \<lparr>status = 200, data = ''USER'',
      resp_headers = [(''x-amzn-requestid'', ''7f3a''),
                      (''X-RateLimit-All-endpoints-Limit'', ''150''),
                      (''X-RateLimit-All-endpoints-Remaining'', ''149'')]\<rparr>"

definition up_server :: "string \<Rightarrow> nat \<Rightarrow> error + http_response" where
  "up_server endpoint k = Inr user_response"


text \<open>
  An environment for the examples: the pipeline answers every URL with the URL itself,
  \<open>str.format\<close> replaces the one placeholder of the template, and a handle object is its
  argument.
\<close>

definition demo_env :: "(arg, json) env" where
  "demo_env =
     \<lparr>env_server = up_server,
      env_loads = demo_loads,
      env_pipeline = (\<lambda>urls s. (Inr (Some (map JStr urls)), s)),
      env_format = (\<lambda>template key v.
         Inr (takeWhile (\<lambda>c. c \<noteq> CHR ''{'') template @ v @
              drop 1 (dropWhile (\<lambda>c. c \<noteq> CHR ''}'') template))),
      env_repr = concat,
      env_TopFeeds = (\<lambda>tag mode s. (Inr tag, s)),
      env_TopWriters = (\<lambda>topic_slug s. (Inr topic_slug, s))\<rparr>"

text \<open>
  Handles for the examples: an id and a title. \<open>save_info\<close> fails with a connection
  error on the id \<open>down\<close> and sets the title of any other handle. Of the handles 0, 1, 2
  and 3 of the store, only handle 0 is populated.
\<close>

definition demo_save_info :: "string \<times> string option \<Rightarrow> (string \<times> string option) \<times> error option" where
  "demo_save_info h =
     (if fst h = ''down'' then (h, Some ConnectionError)
      else ((fst h, Some (''About '' @ fst h)), None))"

definition demo_save_content :: "string \<times> string option \<Rightarrow> (string \<times> string option) \<times> error option" where
  "demo_save_content h = (h, None)"

definition demo_store :: "(string \<times> string option) store" where
  "demo_store a =
     (if a = 0 then (''562c5821b5f0'', Some ''About Me'')
      else if a = 1 then (''9fc6cc3d5ba3'', None)
      else if a = 2 then (''down'', None)
      else (''67fa62fc1971'', None))"

section \<open>Properties of \<open>__get_resp\<close>\<close>

lemma sent_simps [simp]:
  "sent (emit [Request e] s) = Suc (sent s)"
  "sent (emit [Sleep n] s) = sent s"
  "sent (emit [Print ps] s) = sent s"
  "sent (emit [Print ps, Print qs] s) = sent s"
  "sent (s\<lparr>calls := c\<rparr>) = sent s"
  by (simp_all add: sent_def emit_def)

lemma calls_emit [simp]: "calls (emit es s) = calls s"
  by (simp add: emit_def)

lemma emit_emit: "emit es (emit ds s) = emit (ds @ es) s"
  by (simp add: emit_def)


lemma fresh_client_simps [simp]:
  "calls fresh_client = Some 0"
  "trace fresh_client = []"
  "sent fresh_client = 0"
  "call_counts fresh_client = None"
  "call_count_limit fresh_client = None"
  "remaining_calls fresh_client = None"
  by (simp_all add: fresh_client_def base_client_def MediumClient_init_def sent_def)







lemma soft_server_soft [simp]: "soft_error demo_loads (soft_server endpoint k)"
  by (simp add: soft_error_def soft_server_def demo_loads_def)

lemma body_of_soft_server [simp]:
  "body_of demo_loads (soft_server endpoint k) = JObj [(''error'', JStr ''Too many requests'')]"
  by (simp add: body_of_def soft_server_def demo_loads_def)

text \<open>
  C6. A call whose response has a status other than 200 makes that one request and no
  other, does not sleep, prints the status and the raw body, and returns the empty
  mapping together with the status. This holds at every value of \<open>retries\<close>.
\<close>

theorem non200_single_attempt:
  assumes "server endpoint (sent s) = Inr resp" and "status resp \<noteq> 200"
  shows "get_resp server loads endpoint retries s =
           (Inr (JObj [], status resp),
            emit [Request endpoint,
                  Print [Lit ''[ERROR]: Status Code: '', FInt (status resp)],
                  Print [Lit ''[ERROR]: Response: '', FBytes (data resp)]] s)
         \<and> sent (snd (get_resp server loads endpoint retries s)) = sent s + 1
         \<and> filter is_Sleep (trace (snd (get_resp server loads endpoint retries s))) =
             filter is_Sleep (trace s)"
  using assms by (simp add: get_resp.simps emit_emit sent_def emit_def)

theorem non200_single_attempt_witness:
  "get_resp down_server demo_loads ''/user/1985b61817c3'' 0 fresh_client =
     (Inr (JObj [], 404),
      emit [Request ''/user/1985b61817c3'',
            Print [Lit ''[ERROR]: Status Code: '', FInt 404],
            Print [Lit ''[ERROR]: Response: '', FBytes ''Not Found'']] fresh_client)
   \<and> sent (snd (get_resp down_server demo_loads ''/user/1985b61817c3'' 0 fresh_client)) = 1"
  using non200_single_attempt
    [of down_server "''/user/1985b61817c3''" fresh_client
        "\<lparr>status = 404, data = ''Not Found'', resp_headers = []\<rparr>" demo_loads 0]
  by (simp add: down_server_def sent_def emit_def)











section \<open>Properties of the resource constructors\<close>

text \<open>
  C8. Called with neither an id nor a username (slug), \<open>user\<close> and \<open>publication\<close> make
  no request: they print the usage message and return \<open>None\<close> at once. The message on
  standard output is how the error is reported; no exception is raised and the handle
  class is not called.
\<close>

theorem missing_identity_no_io:
  "user server loads User None None save_info s =
     (Inr None, emit [Print [Lit missing_user_id]] s)
   \<and> sent (snd (user server loads User None None save_info s)) = sent s
   \<and> publication server loads Publication None None save_info s =
       (Inr None, emit [Print [Lit missing_publication_id]] s)
   \<and> sent (snd (publication server loads Publication None None save_info s)) = sent s"
  by (simp add: user_def publication_def)






section \<open>Properties of \<open>extract_article_id\<close>\<close>

lemma split_on_not_Nil [simp]: "split_on sep w \<noteq> []"
  by (induction w) (auto split: list.splits)

lemma split_on_no_sep: "sep \<notin> set w \<Longrightarrow> split_on sep w = [w]"
  by (induction w) auto

lemma split_on_append: "split_on sep (q @ sep # w) = split_on sep q @ split_on sep w"
proof (induction q)
  case Nil
  show ?case by simp
next
  case (Cons c q)
  obtain v vs where "split_on sep q = v # vs"
    by (cases "split_on sep q") simp_all
  with Cons show ?case by simp
qed

lemma last_split_on: "sep \<notin> set w \<Longrightarrow> last (split_on sep (q @ sep # w)) = w"
  by (simp add: split_on_append split_on_no_sep)

lemma last_segment:
  assumes "CHR ''/'' \<notin> set w"
  shows "\<exists>q'. last (split_on CHR ''/'' (q @ CHR ''-'' # w)) = q' @ CHR ''-'' # w"
proof (cases "CHR ''/'' \<in> set q")
  case False
  with assms have "split_on CHR ''/'' (q @ CHR ''-'' # w) = [q @ CHR ''-'' # w]"
    by (intro split_on_no_sep) simp
  then show ?thesis by simp
next
  case True
  then obtain q1 q2 where q: "q = q1 @ CHR ''/'' # q2" and "CHR ''/'' \<notin> set q2"
    by (auto dest: split_list_last)
  with assms have "CHR ''/'' \<notin> set (q2 @ CHR ''-'' # w)"
    by simp
  then have "last (split_on CHR ''/'' (q1 @ CHR ''/'' # (q2 @ CHR ''-'' # w))) = q2 @ CHR ''-'' # w"
    by (rule last_split_on)
  then show ?thesis
    using q by auto
qed

lemma isalnum_no_separator:
  assumes "isalnum w"
  shows "CHR ''/'' \<notin> set w" and "CHR ''-'' \<notin> set w"
proof -
  have "\<not> is_alnum_char CHR ''/''" and "\<not> is_alnum_char CHR ''-''"
    by (simp_all add: is_alnum_char_def)
  with assms show "CHR ''/'' \<notin> set w" and "CHR ''-'' \<notin> set w"
    by (auto simp: isalnum_def list_all_iff)
qed

lemma last_token:
  assumes "isalnum w" and "sep = CHR ''/'' \<or> sep = CHR ''-''"
  shows "\<exists>seg. last (split_on CHR ''/'' (q @ sep # w)) = seg
               \<and> last (split_on CHR ''-'' seg) = w"
proof -
  note no = isalnum_no_separator [OF assms(1)]
  from assms(2) show ?thesis
  proof
    assume "sep = CHR ''/''"
    then have "last (split_on CHR ''/'' (q @ sep # w)) = w"
      using no(1) by (simp add: last_split_on)
    moreover have "last (split_on CHR ''-'' w) = w"
      using no(2) by (simp add: split_on_no_sep)
    ultimately show ?thesis by simp
  next
    assume sep: "sep = CHR ''-''"
    obtain q' where "last (split_on CHR ''/'' (q @ CHR ''-'' # w)) = q' @ CHR ''-'' # w"
      using last_segment [OF no(1)] by blast
    moreover have "last (split_on CHR ''-'' (q' @ CHR ''-'' # w)) = w"
      using no(2) by (rule last_split_on)
    ultimately show ?thesis
      using sep by simp
  qed
qed

lemma match_url_needs_scheme:
  "take 7 w \<noteq> ''http://'' \<Longrightarrow> take 8 w \<noteq> ''https://'' \<Longrightarrow> match_url w = None"
  by (simp add: match_url_def)

lemma findall_no_scheme:
  assumes "\<forall>i<length w. take 7 (drop i w) \<noteq> ''http://'' \<and> take 8 (drop i w) \<noteq> ''https://''"
  shows "findall w = []"
  using assms
proof (induction w)
  case Nil
  show ?case by simp
next
  case (Cons c cs)
  have here: "match_url (c # cs) = None"
    using Cons.prems [rule_format, of 0] by (simp add: match_url_needs_scheme)
  have "\<forall>i<length cs. take 7 (drop i cs) \<noteq> ''http://'' \<and> take 8 (drop i cs) \<noteq> ''https://''"
  proof (intro allI impI)
    fix i assume "i < length cs"
    then show "take 7 (drop i cs) \<noteq> ''http://'' \<and> take 8 (drop i cs) \<noteq> ''https://''"
      using Cons.prems [rule_format, of "Suc i"] by simp
  qed
  then have "findall cs = []"
    by (rule Cons.IH)
  with here show ?case by simp
qed

text \<open>
  C9. (1) On the URL of the example the result is \<open>562c5821b5f0\<close>. (2) In general, when
  the first URL found in the string has a path that ends, after a \<open>/\<close> or a \<open>-\<close>, in an
  alphanumeric token, that token is returned. (3) A string in which neither \<open>http://\<close>
  nor \<open>https://\<close> occurs gives \<open>None\<close>.
\<close>

theorem extract_article_id_token:
  "extract_article_id host_ok
     ''https://nishu-jain.medium.com/about-me-nishu-jain-562c5821b5f0'' =
     Inr (Some ''562c5821b5f0'')
   \<and> (findall article_url = url # urls \<and> urlparse_path host_ok url = Inr (q @ sep # w) \<and>
        (sep = CHR ''/'' \<or> sep = CHR ''-'') \<and> isalnum w \<longrightarrow>
        extract_article_id host_ok article_url = Inr (Some w))
   \<and> (\<not> mentions_url article_url \<longrightarrow> extract_article_id host_ok article_url = Inr None)"
proof (intro conjI impI)
  show "extract_article_id host_ok
     ''https://nishu-jain.medium.com/about-me-nishu-jain-562c5821b5f0'' =
     Inr (Some ''562c5821b5f0'')"
    by (simp add: extract_article_id_def match_url_def is_space_def urlparse_path_def
        splitparams_def last_item_def isalnum_def is_alnum_char_def Let_def)
next
  assume a: "findall article_url = url # urls \<and> urlparse_path host_ok url = Inr (q @ sep # w) \<and>
        (sep = CHR ''/'' \<or> sep = CHR ''-'') \<and> isalnum w"
  then obtain seg where "last (split_on CHR ''/'' (q @ sep # w)) = seg"
    and "last (split_on CHR ''-'' seg) = w"
    using last_token [of w sep q] by blast
  with a show "extract_article_id host_ok article_url = Inr (Some w)"
    by (simp add: extract_article_id_def last_item_def)
next
  assume "\<not> mentions_url article_url"
  then have "findall article_url = []"
    by (intro findall_no_scheme) (auto simp: mentions_url_def list_ex_iff)
  then show "extract_article_id host_ok article_url = Inr None"
    by (simp add: extract_article_id_def)
qed

lemma findall_example:
  "findall ''Read https://medium.com/@nishu-jain/my-story-9fc6cc3d5ba3?source=rss today'' =
     [''https://medium.com/@nishu-jain/my-story-9fc6cc3d5ba3?source=rss'']"
  by (simp add: match_url_def is_space_def)

lemma urlparse_path_example:
  "urlparse_path host_ok ''https://medium.com/@nishu-jain/my-story-9fc6cc3d5ba3?source=rss'' =
     Inr (''/@nishu-jain/my-story'' @ CHR ''-'' # ''9fc6cc3d5ba3'')"
  by (simp add: urlparse_path_def splitparams_def Let_def)

theorem extract_article_id_token_witness:
  "extract_article_id (\<lambda>h. True)
     ''Read https://medium.com/@nishu-jain/my-story-9fc6cc3d5ba3?source=rss today'' =
     Inr (Some ''9fc6cc3d5ba3'')
   \<and> \<not> mentions_url ''562c5821b5f0''
   \<and> extract_article_id (\<lambda>h. True) ''562c5821b5f0'' = Inr None"
proof -
  have alnum: "isalnum ''9fc6cc3d5ba3''"
    by (simp add: isalnum_def is_alnum_char_def)
  have none: "\<not> mentions_url ''562c5821b5f0''"
    by (simp add: mentions_url_def upt_rec)
  from extract_article_id_token
    [of "\<lambda>h. True"
        "''Read https://medium.com/@nishu-jain/my-story-9fc6cc3d5ba3?source=rss today''"
        "''https://medium.com/@nishu-jain/my-story-9fc6cc3d5ba3?source=rss''" "[]"
        "''/@nishu-jain/my-story''" "CHR ''-''" "''9fc6cc3d5ba3''"]
  have "extract_article_id (\<lambda>h. True)
     ''Read https://medium.com/@nishu-jain/my-story-9fc6cc3d5ba3?source=rss today'' =
     Inr (Some ''9fc6cc3d5ba3'')"
    using findall_example urlparse_path_example [of "\<lambda>h. True"] alnum by simp
  moreover from extract_article_id_token [of "\<lambda>h. True" "''562c5821b5f0''"]
  have "extract_article_id (\<lambda>h. True) ''562c5821b5f0'' = Inr None"
    using none by simp
  ultimately show ?thesis
    using none by simp
qed

section \<open>Properties of the class body\<close>

lemma fill_length: "fill ps pos kw = Inr vs \<Longrightarrow> length vs = length ps"
  by (induction ps pos kw arbitrary: vs rule: fill.induct)
     (auto split: sum.splits option.splits)

lemma bind_length: "bind ps pos kw = Inr vs \<Longrightarrow> length vs = length ps"
  by (auto simp: bind_def fill_length split: if_splits)

lemma class_namespace_eq:
  "class_namespace env =
     [''topfeeds'' \<mapsto>
        \<lparr>m_line = 582, m_params = [(''tag'', None), (''mode'', Some (Str ''hot''))],
         m_body = (\<lambda>as. topfeeds env (as ! 0) (as ! 1))\<rparr>,
      ''top_writers'' \<mapsto>
        \<lparr>m_line = 594, m_params = [(''topic_slug'', None)],
         m_body = (\<lambda>as. top_writers env (as ! 0))\<rparr>,
      ''related_tags'' \<mapsto>
        \<lparr>m_line = 607, m_params = [(''tag'', None)],
         m_body = (\<lambda>as. related_tags env (as ! 0))\<rparr>]"
  by (rule ext) (simp add: class_namespace_def class_body_def)

lemma batch_result:
  assumes "fst (batch env endpoint key args s) = Inr v"
  shows "v = RNone \<or> (\<exists>res. res \<noteq> [] \<and> v = RDict (py_dict (zip args res)))"
  using assms
  by (auto simp: batch_def split: sum.splits prod.splits option.splits if_splits)

lemma call_method_result:
  assumes "fst (call_method env name pos kw s) = Inr v"
  shows "v = RNone \<or> (\<exists>d. v = RDict d)"
proof -
  from assms obtain m vs where m: "class_namespace env name = Some m"
    and vs: "bind (m_params m) pos kw = Inr vs" and run: "fst (m_body m vs s) = Inr v"
    by (auto simp: call_method_def split: option.splits sum.splits)
  from m consider
    "m_body m = (\<lambda>as. topfeeds env (as ! 0) (as ! 1))"
    | "m_body m = (\<lambda>as. top_writers env (as ! 0))"
    | "m_body m = (\<lambda>as. related_tags env (as ! 0))"
    by (auto simp: class_namespace_eq split: if_splits)
  then show ?thesis
  proof cases
    case 1
    with run have "fst (topfeeds env (vs ! 0) (vs ! 1) s) = Inr v" by simp
    then show ?thesis
      by (auto simp: topfeeds_def split: arg.splits dest: batch_result)
  next
    case 2
    with run have "fst (top_writers env (vs ! 0) s) = Inr v" by simp
    then show ?thesis
      by (auto simp: top_writers_def dest: batch_result)
  next
    case 3
    with run have "fst (related_tags env (vs ! 0) s) = Inr v" by simp
    then show ?thesis
      by (auto simp: related_tags_def dest: batch_result)
  qed
qed

text \<open>
  C7. In the class namespace the three names are bound to the later definitions (lines
  582, 594, 607): \<open>related_tags\<close> has the parameter \<open>tag\<close>, and a call with the keyword
  \<open>given_tag\<close> is a \<open>TypeError\<close>. No name is bound to a definition of lines 291, 336 or
  368. A call of one of the three methods on a client, whatever its arguments, runs the
  later body; when it returns, the value is \<open>None\<close> or a dict, never a handle object or a
  decoded list; for \<open>related_tags\<close> the dict is the tags zipped with the results.
\<close>

theorem later_definitions_in_effect:
  "map_option (\<lambda>m. (m_line m, map fst (m_params m))) (class_namespace env ''related_tags'') =
     Some (607, [''tag''])
   \<and> map_option (\<lambda>m. (m_line m, map fst (m_params m))) (class_namespace env ''topfeeds'') =
     Some (582, [''tag'', ''mode''])
   \<and> map_option (\<lambda>m. (m_line m, map fst (m_params m))) (class_namespace env ''top_writers'') =
     Some (594, [''topic_slug''])
   \<and> (\<forall>name m. class_namespace env name = Some m \<longrightarrow>
         m_line m \<noteq> 291 \<and> m_line m \<noteq> 336 \<and> m_line m \<noteq> 368)
   \<and> call_method env ''related_tags'' [] [(''given_tag'', tag)] s =
       (Inl (TypeError ''unexpected keyword argument''), s)
   \<and> call_method env ''related_tags'' [] [(''tag'', tag)] s = related_tags env tag s
   \<and> call_method env ''related_tags'' [tag] [] s = related_tags env tag s
   \<and> call_method env ''topfeeds'' [tag, mode] [] s = topfeeds env tag mode s
   \<and> call_method env ''top_writers'' [tag] [] s = top_writers env tag s
   \<and> (\<forall>name pos kw v. fst (call_method env name pos kw s) = Inr v \<longrightarrow>
         v = RNone \<or> (\<exists>d. v = RDict d))
   \<and> (\<forall>v. fst (related_tags env tag s) = Inr v \<longrightarrow>
         v = RNone \<or> (\<exists>res. res \<noteq> [] \<and> v = RDict (py_dict (zip (as_list tag) res))))"
proof (intro conjI allI impI)
  fix name pos kw v
  assume "fst (call_method env name pos kw s) = Inr v"
  then show "v = RNone \<or> (\<exists>d. v = RDict d)"
    by (rule call_method_result)
next
  fix v
  assume "fst (related_tags env tag s) = Inr v"
  then show "v = RNone \<or> (\<exists>res. res \<noteq> [] \<and> v = RDict (py_dict (zip (as_list tag) res)))"
    unfolding related_tags_def by (rule batch_result)
qed (auto simp: class_namespace_eq call_method_def bind_def split: if_splits)

theorem later_definitions_in_effect_witness:
  "fst (call_method demo_env ''related_tags'' [] [(''tag'', Str ''blockchain'')] fresh_client) =
     Inr (RDict [(''blockchain'',
                  JStr ''https://medium2.p.rapidapi.com/related_tags/blockchain'')])
   \<and> fst (call_method demo_env ''related_tags'' [] [(''given_tag'', Str ''blockchain'')]
            fresh_client) =
     Inl (TypeError ''unexpected keyword argument'')
   \<and> fst (call_method demo_env ''topfeeds'' [StrList [''ai'', ''web3'']] [] fresh_client) =
     Inr (RDict [(''ai'', JStr ''https://medium2.p.rapidapi.com/topfeeds/ai/hot''),
                 (''web3'', JStr ''https://medium2.p.rapidapi.com/topfeeds/web3/hot'')])"
proof -
  note inst = later_definitions_in_effect [of demo_env "Str ''blockchain''" fresh_client]
  have a: "fst (related_tags demo_env (Str ''blockchain'') fresh_client) =
     Inr (RDict [(''blockchain'',
                  JStr ''https://medium2.p.rapidapi.com/related_tags/blockchain'')])"
    by (simp add: related_tags_def batch_def get_urls_def demo_env_def base_url_def py_dict_def)
  have b: "fst (call_method demo_env ''topfeeds'' [StrList [''ai'', ''web3'']] [] fresh_client) =
     Inr (RDict [(''ai'', JStr ''https://medium2.p.rapidapi.com/topfeeds/ai/hot''),
                 (''web3'', JStr ''https://medium2.p.rapidapi.com/topfeeds/web3/hot'')])"
    by (simp add: call_method_def class_namespace_eq bind_def topfeeds_def batch_def
        get_urls_def demo_env_def base_url_def py_dict_def)
  from inst a b show ?thesis by simp
qed

section \<open>Properties of the bulk fetcher\<close>

lemma mset_pick_order: "mset (pick_order cs xs) = mset xs"
proof (induction cs xs rule: pick_order.induct)
  case (1 cs xs)
  show ?case
  proof (cases "xs = []")
    case True
    then show ?thesis by (simp add: pick_order.simps)
  next
    case False
    define i where "i = (case cs of [] \<Rightarrow> 0 | c # _ \<Rightarrow> c mod length xs)"
    have i: "i < length xs"
      using False by (cases cs) (simp_all add: i_def)
    have "mset (pick_order (tl cs) (take i xs @ drop (Suc i) xs)) =
          mset (take i xs @ drop (Suc i) xs)"
      using "1.IH" [OF False i_def] .
    moreover have "pick_order cs xs = xs ! i # pick_order (tl cs) (take i xs @ drop (Suc i) xs)"
      using False by (subst pick_order.simps) (simp add: i_def Let_def)
    moreover have "mset xs = mset (take i xs @ xs ! i # drop (Suc i) xs)"
      using id_take_nth_drop [OF i] by simp
    ultimately show ?thesis by simp
  qed
qed

lemma set_pick_order: "set (pick_order cs xs) = set xs"
  using mset_pick_order [of cs xs] by (metis set_mset_mset)


lemma run_jobs_Cons:
  "run_jobs run ((fid, a, f) # js) st =
     (fst (run_jobs run js (st(a := fst (run f (st a))))),
      (fid, snd (run f (st a))) # snd (run_jobs run js (st(a := fst (run f (st a))))))"
  by (simp split: prod.splits)

lemma run_jobs_other:
  "a \<notin> set (map (\<lambda>j. fst (snd j)) js) \<Longrightarrow> fst (run_jobs run js st) a = st a"
proof (induction js arbitrary: st)
  case Nil
  show ?case by simp
next
  case (Cons j js)
  obtain fid a' f where j: "j = (fid, a', f)"
    by (cases j) auto
  with Cons.prems have "a' \<noteq> a" and "a \<notin> set (map (\<lambda>j. fst (snd j)) js)"
    by auto
  then show ?case
    unfolding j run_jobs_Cons using Cons.IH by simp
qed

lemma run_jobs_own:
  "distinct (map (\<lambda>j. fst (snd j)) js) \<Longrightarrow> (fid, a, f) \<in> set js \<Longrightarrow>
   fst (run_jobs run js st) a = fst (run f (st a))"
proof (induction js arbitrary: st)
  case Nil
  then show ?case by simp
next
  case (Cons j js)
  obtain fid' a' f' where j: "j = (fid', a', f')"
    by (cases j) auto
  show ?case
  proof (cases "(fid, a, f) = j")
    case True
    with Cons.prems j have "a \<notin> set (map (\<lambda>j. fst (snd j)) js)" by auto
    then have "fst (run_jobs run js (st(a := fst (run f (st a))))) a = fst (run f (st a))"
      by (simp add: run_jobs_other)
    with True j show ?thesis
      by (auto simp: run_jobs_Cons simp del: run_jobs.simps)
  next
    case False
    with Cons.prems have mem: "(fid, a, f) \<in> set js" by simp
    with Cons.prems j have ne: "a' \<noteq> a" by force
    have "fst (run_jobs run js (st(a' := fst (run f' (st a'))))) a =
          fst (run f ((st(a' := fst (run f' (st a')))) a))"
      using Cons.IH [OF _ mem] Cons.prems(1) by simp
    with ne j show ?thesis
      by (simp add: run_jobs_Cons del: run_jobs.simps)
  qed
qed

lemma run_jobs_done:
  "distinct (map (\<lambda>j. fst (snd j)) js) \<Longrightarrow>
   snd (run_jobs run js st) = map (\<lambda>j. (fst j, snd (run (snd (snd j)) (st (fst (snd j)))))) js"
proof (induction js arbitrary: st)
  case Nil
  show ?case by simp
next
  case (Cons j js)
  obtain fid a f where j: "j = (fid, a, f)"
    by (cases j) auto
  from Cons.prems j have fresh: "a \<notin> set (map (\<lambda>j. fst (snd j)) js)" and d: "distinct (map (\<lambda>j. fst (snd j)) js)"
    by auto
  have "snd (run_jobs run js (st(a := fst (run f (st a))))) =
        map (\<lambda>j. (fst j, snd (run (snd (snd j)) ((st(a := fst (run f (st a)))) (fst (snd j)))))) js"
    by (rule Cons.IH [OF d])
  also have "\<dots> = map (\<lambda>j. (fst j, snd (run (snd (snd j)) (st (fst (snd j)))))) js"
    using fresh by (intro map_cong) auto
  finally show ?case
    using j by (simp add: run_jobs_Cons del: run_jobs.simps)
qed


lemma first_raised_None: "first_raised fs = None \<longleftrightarrow> (\<forall>x \<in> set fs. snd x = None)"
  by (induction fs rule: first_raised.induct) auto

lemma first_raised_Some: "first_raised fs = Some e \<Longrightarrow> \<exists>fid. (fid, Some e) \<in> set fs"
  by (induction fs rule: first_raised.induct) auto

lemma first_raised_is_first:
  "first_raised fs = Some e \<Longrightarrow>
   \<exists>ys fid zs. fs = ys @ (fid, Some e) # zs \<and> (\<forall>y \<in> set ys. snd y = None)"
proof (induction fs rule: first_raised.induct)
  case 1
  then show ?case by simp
next
  case (2 fid fs)
  then obtain ys fid' zs where "fs = ys @ (fid', Some e) # zs" "\<forall>y \<in> set ys. snd y = None"
    by auto
  then have "(fid, None) # fs = ((fid, None) # ys) @ (fid', Some e) # zs \<and>
             (\<forall>y \<in> set ((fid, None) # ys). snd y = None)"
    by simp
  then show ?case by blast
next
  case (3 fid e' fs)
  then have "(fid, Some e') # fs = [] @ (fid, Some e) # fs \<and> (\<forall>y \<in> set []. snd y = None)"
    by simp
  then show ?case by blast
qed

lemma run_jobs_ids: "map fst (snd (run_jobs run js st)) = map fst js"
proof (induction js arbitrary: st)
  case Nil
  show ?case by simp
next
  case (Cons j js)
  obtain fid a f where "j = (fid, a, f)"
    by (cases j) auto
  with Cons.IH show ?case
    by (simp add: run_jobs_Cons del: run_jobs.simps)
qed

lemma pool_first:
  "raised (run_pool run sched seen jobs st) =
     first_raised (pick_order seen (completed (run_pool run sched seen jobs st)))"
  by (simp add: run_pool_def Let_def split: prod.splits)

lemma pool_completed_all:
  "mset (map fst (completed (run_pool run sched seen jobs st))) = mset [0..<length jobs]"
proof -
  let ?order = "pick_order sched (zip [0..<length jobs] jobs)"
  have "completed (run_pool run sched seen jobs st) = snd (run_jobs run ?order st)"
    by (simp add: run_pool_def Let_def split: prod.splits)
  then have "map fst (completed (run_pool run sched seen jobs st)) = map fst ?order"
    by (simp add: run_jobs_ids)
  moreover have "mset (map fst ?order) = mset (map fst (zip [0..<length jobs] jobs))"
    using mset_pick_order [of sched "zip [0..<length jobs] jobs"] by (metis mset_map)
  ultimately show ?thesis
    by simp
qed

lemma pool_raised_None_iff:
  "raised (run_pool run sched seen jobs st) = None \<longleftrightarrow>
     (\<forall>x \<in> set (completed (run_pool run sched seen jobs st)). snd x = None)"
  by (subst pool_first) (simp add: first_raised_None set_pick_order)

lemma pool_raised_first:
  assumes "raised (run_pool run sched seen jobs st) = Some e"
  shows "\<exists>ys fid zs.
           pick_order seen (completed (run_pool run sched seen jobs st)) = ys @ (fid, Some e) # zs \<and>
           (\<forall>y \<in> set ys. snd y = None)"
  using assms by (subst (asm) pool_first) (rule first_raised_is_first)

text \<open>The pool on jobs whose handles are pairwise distinct objects.\<close>

lemma run_pool_distinct:
  assumes d: "distinct (map fst jobs)"
  shows "mset (map fst (completed (run_pool run sched seen jobs st))) = mset [0..<length jobs]"
    and "(a, f) \<in> set jobs \<Longrightarrow> handles (run_pool run sched seen jobs st) a = fst (run f (st a))"
    and "a \<notin> set (map fst jobs) \<Longrightarrow> handles (run_pool run sched seen jobs st) a = st a"
    and "raised (run_pool run sched seen jobs st) = None \<longleftrightarrow>
           (\<forall>j \<in> set jobs. snd (run (snd j) (st (fst j))) = None)"
    and "raised (run_pool run sched seen jobs st) = Some e \<Longrightarrow>
           \<exists>j \<in> set jobs. snd (run (snd j) (st (fst j))) = Some e"
proof -
  define futures where "futures = zip [0..<length jobs] jobs"
  define order where "order = pick_order sched futures"
  define st' where "st' = fst (run_jobs run order st)"
  define outs where "outs = snd (run_jobs run order st)"
  have pool: "run_pool run sched seen jobs st =
      \<lparr>raised = first_raised (pick_order seen outs), handles = st', completed = outs\<rparr>"
    by (simp add: run_pool_def futures_def order_def st'_def outs_def Let_def split: prod.splits)
  have snd_futures: "map snd futures = jobs" and fst_futures: "map fst futures = [0..<length jobs]"
    by (simp_all add: futures_def)
  have m: "mset order = mset futures"
    by (simp add: order_def mset_pick_order)
  then have s: "set order = set futures"
    by (metis set_mset_mset)
  have "mset (map (\<lambda>j. fst (snd j)) order) = mset (map (\<lambda>j. fst (snd j)) futures)"
    using m by (metis mset_map)
  moreover have "map (\<lambda>j. fst (snd j)) futures = map fst (map snd futures)"
    by simp
  then have "map (\<lambda>j. fst (snd j)) futures = map fst jobs"
    by (simp only: snd_futures)
  ultimately have dist: "distinct (map (\<lambda>j. fst (snd j)) order)"
    using d by (metis mset_eq_imp_distinct_iff)
  have outs_eq: "outs = map (\<lambda>j. (fst j, snd (run (snd (snd j)) (st (fst (snd j)))))) order"
    unfolding outs_def by (rule run_jobs_done [OF dist])
  have "map fst outs = map fst order"
    by (simp add: outs_eq comp_def)
  then have "mset (map fst outs) = mset (map fst futures)"
    using m by (metis mset_map)
  then show "mset (map fst (completed (run_pool run sched seen jobs st))) = mset [0..<length jobs]"
    by (simp add: pool fst_futures)
  have jobs_order: "snd ` set order = set jobs"
    using s snd_futures by (metis set_map)
  show "handles (run_pool run sched seen jobs st) a = fst (run f (st a))" if "(a, f) \<in> set jobs"
  proof -
    from that jobs_order obtain fid where "(fid, a, f) \<in> set order"
      by force
    then show ?thesis
      using run_jobs_own [OF dist] by (simp add: pool st'_def)
  qed
  show "handles (run_pool run sched seen jobs st) a = st a" if "a \<notin> set (map fst jobs)"
  proof -
    have "set (map (\<lambda>j. fst (snd j)) order) = fst ` (snd ` set order)"
      by (simp add: image_image)
    then have "set (map (\<lambda>j. fst (snd j)) order) = set (map fst jobs)"
      by (simp only: jobs_order set_map)
    with that show ?thesis
      by (simp add: pool st'_def run_jobs_other)
  qed
  have results: "snd ` set (pick_order seen outs) = (\<lambda>j. snd (run (snd j) (st (fst j)))) ` set jobs"
  proof -
    have "snd ` set outs = (\<lambda>j. snd (run (snd (snd j)) (st (fst (snd j))))) ` set order"
      by (simp add: outs_eq image_comp comp_def)
    also have "\<dots> = (\<lambda>j. snd (run (snd j) (st (fst j)))) ` (snd ` set order)"
      by (simp add: image_comp comp_def)
    finally show ?thesis
      by (simp add: set_pick_order jobs_order)
  qed
  show "raised (run_pool run sched seen jobs st) = None \<longleftrightarrow>
           (\<forall>j \<in> set jobs. snd (run (snd j) (st (fst j))) = None)"
  proof -
    have "raised (run_pool run sched seen jobs st) = None \<longleftrightarrow>
          (\<forall>r \<in> snd ` set (pick_order seen outs). r = None)"
      by (simp add: pool first_raised_None)
    then show ?thesis
      unfolding results by simp
  qed
  show "\<exists>j \<in> set jobs. snd (run (snd j) (st (fst j))) = Some e"
    if "raised (run_pool run sched seen jobs st) = Some e"
  proof -
    from that obtain fid where "(fid, Some e) \<in> set (pick_order seen outs)"
      using first_raised_Some by (fastforce simp: pool)
    then have "Some e \<in> snd ` set (pick_order seen outs)"
      by force
    then obtain j where "j \<in> set jobs" and "Some e = snd (run (snd j) (st (fst j)))"
      unfolding results by blast
    then show ?thesis
      by (intro bexI [of _ j]) simp_all
  qed
qed

lemma article_jobs_plain:
  "article_jobs title hs False st = map (\<lambda>a. (a, SaveInfo)) (filter (\<lambda>a. title (st a) = None) hs)"
  by (simp add: article_jobs_def)

lemma distinct_jobs:
  "distinct hs \<Longrightarrow> distinct (map fst (map (\<lambda>a. (a, SaveInfo)) (filter P hs)))"
  by (simp add: comp_def)

lemma pool_after:
  assumes "distinct hs"
  shows "handles (run_pool run sched seen (map (\<lambda>a. (a, SaveInfo)) (filter P hs)) st) a =
           (if a \<in> set hs \<and> P a then fst (run SaveInfo (st a)) else st a)"
proof (cases "a \<in> set hs \<and> P a")
  case True
  then have "(a, SaveInfo) \<in> set (map (\<lambda>a. (a, SaveInfo)) (filter P hs))"
    by simp
  with True show ?thesis
    using run_pool_distinct(2) [OF distinct_jobs [OF assms]] by metis
next
  case False
  then have "a \<notin> set (map fst (map (\<lambda>a. (a, SaveInfo)) (filter P hs)))"
    by (auto simp: comp_def)
  with False show ?thesis
    using run_pool_distinct(3) [OF distinct_jobs [OF assms]] by metis
qed

lemma pool_raised_None:
  assumes "distinct hs"
  shows "raised (run_pool run sched seen (map (\<lambda>a. (a, SaveInfo)) (filter P hs)) st) = None \<longleftrightarrow>
           (\<forall>a \<in> set hs. P a \<longrightarrow> snd (run SaveInfo (st a)) = None)"
  unfolding run_pool_distinct(4) [OF distinct_jobs [OF assms]] by auto

lemma pool_raised_Some:
  assumes "distinct hs"
    and "raised (run_pool run sched seen (map (\<lambda>a. (a, SaveInfo)) (filter P hs)) st) = Some e"
  shows "\<exists>a \<in> set hs. P a \<and> snd (run SaveInfo (st a)) = Some e"
  using run_pool_distinct(5) [OF distinct_jobs [OF assms(1)] assms(2)] by auto



text \<open>
  C4. Whatever the order in which the pool runs the jobs and the order in which their
  completion is seen, whichever of them raise, and for every list of handles (with or
  without \<open>content\<close>): every submitted job completes, once; the call raises nothing
  exactly when no job raised; and otherwise it raises one exception, that of the first
  failed job in the order seen. When the handles of the list are distinct objects and
  the call is \<open>fetch_users\<close>, or \<open>fetch_articles\<close> without \<open>content\<close>: each handle that was
  submitted holds what its own populate operation made of it, so that a success is kept
  when a sibling fails, and every other handle is untouched; the call raises nothing
  exactly when no populate operation of a submitted handle raises, and what it raises
  is the exception of one of them.
\<close>

theorem bulk_fetch_partial_failure:
  "mset (map fst (completed (fetch_articles title save_info save_content sched seen hs content st))) =
     mset [0..<length (article_jobs title hs content st)]
   \<and> (raised (fetch_articles title save_info save_content sched seen hs content st) = None \<longleftrightarrow>
        (\<forall>x \<in> set (completed (fetch_articles title save_info save_content sched seen hs content st)).
           snd x = None))
   \<and> (\<forall>e. raised (fetch_articles title save_info save_content sched seen hs content st) = Some e \<longrightarrow>
        (\<exists>ys fid zs.
           pick_order seen
             (completed (fetch_articles title save_info save_content sched seen hs content st)) =
             ys @ (fid, Some e) # zs \<and>
           (\<forall>y \<in> set ys. snd y = None)))
   \<and> mset (map fst (completed (fetch_users title save_info sched seen hs st))) =
       mset [0..<length (user_jobs title hs st)]
   \<and> (raised (fetch_users title save_info sched seen hs st) = None \<longleftrightarrow>
        (\<forall>x \<in> set (completed (fetch_users title save_info sched seen hs st)). snd x = None))
   \<and> (\<forall>e. raised (fetch_users title save_info sched seen hs st) = Some e \<longrightarrow>
        (\<exists>ys fid zs.
           pick_order seen (completed (fetch_users title save_info sched seen hs st)) =
             ys @ (fid, Some e) # zs \<and>
           (\<forall>y \<in> set ys. snd y = None)))
   \<and> (distinct hs \<longrightarrow>
        (\<forall>a. handles (fetch_articles title save_info save_content sched seen hs False st) a =
           (if a \<in> set hs \<and> title (st a) = None then fst (save_info (st a)) else st a))
        \<and> (raised (fetch_articles title save_info save_content sched seen hs False st) = None \<longleftrightarrow>
             (\<forall>a \<in> set hs. title (st a) = None \<longrightarrow> snd (save_info (st a)) = None))
        \<and> (\<forall>e. raised (fetch_articles title save_info save_content sched seen hs False st) = Some e \<longrightarrow>
             (\<exists>a \<in> set hs. title (st a) = None \<and> snd (save_info (st a)) = Some e))
        \<and> (\<forall>a. handles (fetch_users title save_info sched seen hs st) a =
             (if a \<in> set hs \<and> title (st a) = None then fst (save_info (st a)) else st a))
        \<and> (raised (fetch_users title save_info sched seen hs st) = None \<longleftrightarrow>
             (\<forall>a \<in> set hs. title (st a) = None \<longrightarrow> snd (save_info (st a)) = None))
        \<and> (\<forall>e. raised (fetch_users title save_info sched seen hs st) = Some e \<longrightarrow>
             (\<exists>a \<in> set hs. title (st a) = None \<and> snd (save_info (st a)) = Some e)))"
proof -
  let ?P = "\<lambda>a. title (st a) = None"
  let ?A = "run_pool (run_op save_info save_content) sched seen
              (map (\<lambda>a. (a, SaveInfo)) (filter ?P hs)) st"
  let ?U = "run_pool (\<lambda>f. save_info) sched seen (map (\<lambda>a. (a, SaveInfo)) (filter ?P hs)) st"
  let ?G = "run_pool (run_op save_info save_content) sched seen (article_jobs title hs content st) st"
  let ?H = "run_pool (\<lambda>f. save_info) sched seen (user_jobs title hs st) st"
  have G: "fetch_articles title save_info save_content sched seen hs content st = ?G"
    by (simp add: fetch_articles_def)
  have H: "fetch_users title save_info sched seen hs st = ?H"
    by (simp add: fetch_users_def)
  have A: "fetch_articles title save_info save_content sched seen hs False st = ?A"
    by (simp add: fetch_articles_def article_jobs_plain)
  have U: "fetch_users title save_info sched seen hs st = ?U"
    by (simp add: fetch_users_def user_jobs_def)
  have run: "run_op save_info save_content SaveInfo = save_info"
    by (rule ext) (simp add: run_op_def)
  have g1: "mset (map fst (completed ?G)) = mset [0..<length (article_jobs title hs content st)]"
    by (rule pool_completed_all)
  have g2: "raised ?G = None \<longleftrightarrow> (\<forall>x \<in> set (completed ?G). snd x = None)"
    by (rule pool_raised_None_iff)
  have g3: "\<forall>e. raised ?G = Some e \<longrightarrow>
      (\<exists>ys fid zs. pick_order seen (completed ?G) = ys @ (fid, Some e) # zs \<and>
         (\<forall>y \<in> set ys. snd y = None))"
    using pool_raised_first by blast
  have h1: "mset (map fst (completed ?H)) = mset [0..<length (user_jobs title hs st)]"
    by (rule pool_completed_all)
  have h2: "raised ?H = None \<longleftrightarrow> (\<forall>x \<in> set (completed ?H). snd x = None)"
    by (rule pool_raised_None_iff)
  have h3: "\<forall>e. raised ?H = Some e \<longrightarrow>
      (\<exists>ys fid zs. pick_order seen (completed ?H) = ys @ (fid, Some e) # zs \<and>
         (\<forall>y \<in> set ys. snd y = None))"
    using pool_raised_first by blast
  have general: "?thesis" if
    "distinct hs \<longrightarrow>
        (\<forall>a. handles ?A a = (if a \<in> set hs \<and> ?P a then fst (save_info (st a)) else st a))
        \<and> (raised ?A = None \<longleftrightarrow> (\<forall>a \<in> set hs. ?P a \<longrightarrow> snd (save_info (st a)) = None))
        \<and> (\<forall>e. raised ?A = Some e \<longrightarrow> (\<exists>a \<in> set hs. ?P a \<and> snd (save_info (st a)) = Some e))
        \<and> (\<forall>a. handles ?U a = (if a \<in> set hs \<and> ?P a then fst (save_info (st a)) else st a))
        \<and> (raised ?U = None \<longleftrightarrow> (\<forall>a \<in> set hs. ?P a \<longrightarrow> snd (save_info (st a)) = None))
        \<and> (\<forall>e. raised ?U = Some e \<longrightarrow> (\<exists>a \<in> set hs. ?P a \<and> snd (save_info (st a)) = Some e))"
    unfolding G A using g1 g2 g3 h1 h2 h3 that unfolding H [symmetric] U [symmetric] by blast
  show ?thesis
  proof (rule general, rule impI)
    assume d: "distinct hs"
    have a2: "\<forall>a. handles ?A a = (if a \<in> set hs \<and> ?P a then fst (save_info (st a)) else st a)"
      using pool_after [OF d, of "run_op save_info save_content" sched seen ?P st]
      by (simp add: run)
    have a3: "raised ?A = None \<longleftrightarrow> (\<forall>a \<in> set hs. ?P a \<longrightarrow> snd (save_info (st a)) = None)"
      using pool_raised_None [OF d, of "run_op save_info save_content" sched seen ?P st]
      by (simp add: run)
    have a4: "\<forall>e. raised ?A = Some e \<longrightarrow> (\<exists>a \<in> set hs. ?P a \<and> snd (save_info (st a)) = Some e)"
      using pool_raised_Some [OF d, of "run_op save_info save_content" sched seen ?P st]
      by (simp add: run)
    have u2: "\<forall>a. handles ?U a = (if a \<in> set hs \<and> ?P a then fst (save_info (st a)) else st a)"
      using pool_after [OF d, of "\<lambda>f. save_info" sched seen ?P st] by simp
    have u3: "raised ?U = None \<longleftrightarrow> (\<forall>a \<in> set hs. ?P a \<longrightarrow> snd (save_info (st a)) = None)"
      using pool_raised_None [OF d, of "\<lambda>f. save_info" sched seen ?P st] by simp
    have u4: "\<forall>e. raised ?U = Some e \<longrightarrow> (\<exists>a \<in> set hs. ?P a \<and> snd (save_info (st a)) = Some e)"
      using pool_raised_Some [OF d, of "\<lambda>f. save_info" sched seen ?P st] by simp
    from a2 a3 a4 u2 u3 u4
    show "(\<forall>a. handles ?A a = (if a \<in> set hs \<and> ?P a then fst (save_info (st a)) else st a))
        \<and> (raised ?A = None \<longleftrightarrow> (\<forall>a \<in> set hs. ?P a \<longrightarrow> snd (save_info (st a)) = None))
        \<and> (\<forall>e. raised ?A = Some e \<longrightarrow> (\<exists>a \<in> set hs. ?P a \<and> snd (save_info (st a)) = Some e))
        \<and> (\<forall>a. handles ?U a = (if a \<in> set hs \<and> ?P a then fst (save_info (st a)) else st a))
        \<and> (raised ?U = None \<longleftrightarrow> (\<forall>a \<in> set hs. ?P a \<longrightarrow> snd (save_info (st a)) = None))
        \<and> (\<forall>e. raised ?U = Some e \<longrightarrow> (\<exists>a \<in> set hs. ?P a \<and> snd (save_info (st a)) = Some e))"
      by blast
  qed
qed

theorem bulk_fetch_partial_failure_witness:
  "distinct [0, 1, 2 :: nat]
   \<and> handles (fetch_articles snd demo_save_info demo_save_content [2, 0] [1] [0, 1, 2] False
                demo_store) 1 = (''9fc6cc3d5ba3'', Some ''About 9fc6cc3d5ba3'')
   \<and> handles (fetch_articles snd demo_save_info demo_save_content [2, 0] [1] [0, 1, 2] False
                demo_store) 0 = (''562c5821b5f0'', Some ''About Me'')
   \<and> raised (fetch_articles snd demo_save_info demo_save_content [2, 0] [1] [0, 1, 2] False
               demo_store) = Some ConnectionError
   \<and> raised (fetch_users snd demo_save_info [2, 0] [1] [0, 1] demo_store) = None"
proof -
  have d: "distinct [0, 1, 2 :: nat]" and d': "distinct [0, 1 :: nat]"
    by simp_all
  note A = bulk_fetch_partial_failure
    [where hs = "[0, 1, 2]" and title = snd and save_info = demo_save_info
       and save_content = demo_save_content and sched = "[2, 0]" and seen = "[1]"
       and st = demo_store and content = False]
  note U = bulk_fetch_partial_failure
    [where hs = "[0, 1]" and title = snd and save_info = demo_save_info
       and save_content = demo_save_content and sched = "[2, 0]" and seen = "[1]"
       and st = demo_store and content = False]
  let ?r = "fetch_articles snd demo_save_info demo_save_content [2, 0] [1] [0, 1, 2] False demo_store"
  from A d have h: "\<forall>a. handles ?r a =
      (if a \<in> set [0, 1, 2] \<and> snd (demo_store a) = None then fst (demo_save_info (demo_store a))
       else demo_store a)"
    by blast
  have h1: "handles ?r 1 = (''9fc6cc3d5ba3'', Some ''About 9fc6cc3d5ba3'')"
    using h [rule_format, of 1] by (simp add: demo_store_def demo_save_info_def)
  have h0: "handles ?r 0 = (''562c5821b5f0'', Some ''About Me'')"
    using h [rule_format, of 0] by (simp add: demo_store_def demo_save_info_def)
  from A d have "raised ?r = None \<longleftrightarrow>
      (\<forall>a \<in> set [0, 1, 2]. snd (demo_store a) = None \<longrightarrow> snd (demo_save_info (demo_store a)) = None)"
    by blast
  then have "raised ?r \<noteq> None"
    by (simp add: demo_store_def demo_save_info_def)
  then obtain e where e: "raised ?r = Some e"
    by auto
  from A d e have "\<exists>a \<in> set [0, 1, 2]. snd (demo_store a) = None \<and> snd (demo_save_info (demo_store a)) = Some e"
    by blast
  then have "e = ConnectionError"
    by (auto simp: demo_store_def demo_save_info_def split: if_splits)
  with e have r: "raised ?r = Some ConnectionError"
    by simp
  from U d' have "raised (fetch_users snd demo_save_info [2, 0] [1] [0, 1] demo_store) = None \<longleftrightarrow>
      (\<forall>a \<in> set [0, 1]. snd (demo_store a) = None \<longrightarrow> snd (demo_save_info (demo_store a)) = None)"
    by blast
  then have u: "raised (fetch_users snd demo_save_info [2, 0] [1] [0, 1] demo_store) = None"
    by (simp add: demo_store_def demo_save_info_def)
  from d h1 h0 r u show ?thesis
    by simp
qed



end
